theory Spec2Isabelle
  imports Main
begin

section \<open>JSON values and the JavaScript coercions the handlers use\<close>

text \<open>
  Request bodies are untyped in \<^verbatim>\<open>src/server.ts\<close> (\<^verbatim>\<open>req.body\<close> is \<^verbatim>\<open>any\<close>).
  A body is a JSON object, a finite map from property names to values; a property that is
  absent reads as \<^verbatim>\<open>undefined\<close>. The values covered are the JSON scalars: null, booleans,
  integer numbers and strings (arrays, nested objects and fractional numbers are not
  covered). A string is a list of code units below 256.
\<close>

datatype jsval = JUndefined | JNull | JBool bool | JNum int | JStr string

type_synonym json_object = "string \<rightharpoonup> jsval"

definition field :: "json_object \<Rightarrow> string \<Rightarrow> jsval" where
  "field obj k = (case obj k of None \<Rightarrow> JUndefined | Some v \<Rightarrow> v)"

text \<open>ToBoolean, as used by \<^verbatim>\<open>||\<close>, \<^verbatim>\<open>!\<close> and \<^verbatim>\<open>filter(Boolean)\<close>.\<close>

definition truthy :: "jsval \<Rightarrow> bool" where
  "truthy v = (case v of
       JUndefined \<Rightarrow> False
     | JNull \<Rightarrow> False
     | JBool b \<Rightarrow> b
     | JNum n \<Rightarrow> n \<noteq> 0
     | JStr s \<Rightarrow> s \<noteq> [])"

definition digit_char :: "nat \<Rightarrow> char" where
  "digit_char d =
     (if d = 0 then CHR ''0'' else if d = 1 then CHR ''1'' else if d = 2 then CHR ''2''
      else if d = 3 then CHR ''3'' else if d = 4 then CHR ''4'' else if d = 5 then CHR ''5''
      else if d = 6 then CHR ''6'' else if d = 7 then CHR ''7'' else if d = 8 then CHR ''8''
      else CHR ''9'')"

fun show_nat :: "nat \<Rightarrow> string" where
  "show_nat n = (if n < 10 then [digit_char n] else show_nat (n div 10) @ [digit_char (n mod 10)])"

declare show_nat.simps [simp del]

text \<open>ToString, as applied to a value interpolated in a template literal.\<close>

definition to_string :: "jsval \<Rightarrow> string" where
  "to_string v = (case v of
       JUndefined \<Rightarrow> ''undefined''
     | JNull \<Rightarrow> ''null''
     | JBool b \<Rightarrow> (if b then ''true'' else ''false'')
     | JNum n \<Rightarrow> (if n < 0 then ''-'' @ show_nat (nat (- n)) else show_nat (nat n))
     | JStr s \<Rightarrow> s)"

text \<open>
  \<^verbatim>\<open>String.prototype.trim\<close> removes white space and line terminators from both ends.
  Below 256 these are the code units 9 to 13, 32 and 160.
\<close>

definition is_white_space :: "char \<Rightarrow> bool" where
  "is_white_space c = (of_char c \<in> {9, 10, 11, 12, 13, 32, 160 :: nat})"

definition trim :: "string \<Rightarrow> string" where
  "trim s = rev (dropWhile is_white_space (rev (dropWhile is_white_space s)))"

definition startsWith :: "string \<Rightarrow> string \<Rightarrow> bool" where
  "startsWith s p = (take (length p) s = p)"

section \<open>The external store\<close>

text \<open>
  The relational store is an external service. Its tables are lists of rows. The columns
  the handlers compute with are typed as the data model has them (integers, text, a flag);
  the remaining columns of a row are kept by name as JSON values.
\<close>

record user_row =
  id_u :: string
  email :: string
  current_plan :: string
  total_points :: int
  used_points_today :: int
  total_generations :: int
  other_columns :: json_object

record track_row =
  id_t :: string
  user_id_t :: string
  is_published :: bool
  likes :: int
  created_at :: nat
  tags :: "string list"
  columns_t :: json_object

record published_row =
  track_id_p :: string
  user_id_p :: string
  published_at :: nat

record like_row =
  user_id_l :: string
  track_id_l :: string

record store =
  users :: "user_row list"
  tracks :: "track_row list"
  published_tracks :: "published_row list"
  track_likes :: "like_row list"

text \<open>
  The client library's \<^verbatim>\<open>.single()\<close>: the data is the row when exactly one row comes
  back; with no row or several rows the data is null and an error is reported.
\<close>

definition single :: "'a list \<Rightarrow> 'a option" where
  "single rows = (case rows of [r] \<Rightarrow> Some r | _ \<Rightarrow> None)"

section \<open>The vendor, the identity provider and the calls a request makes\<close>

record generate_payload =
  customMode :: bool
  instrumental :: jsval
  model :: string
  callBackUrl :: string
  prompt :: string
  style :: string
  title :: string

text \<open>
  \<^verbatim>\<open>axios.post\<close> either rejects (non-2xx status, timeout, network failure), with
  \<^verbatim>\<open>error.response?.data?.msg\<close> and \<^verbatim>\<open>error.message\<close>, or resolves with a body whose
  \<^verbatim>\<open>data?.data?.taskId\<close> is a string or is missing.
\<close>

datatype vendor_result =
    VendorRejects "string option" string
  | VendorResolves "string option"

datatype idp_result = IdpUser string | IdpError | IdpNoUser | IdpThrows

datatype call =
    AuthGetUser string
  | UsersSelect string
  | UsersUpdateCredits string int int int
  | UsersUpdate string
  | TracksInsert string
  | TracksSelectByUser string
  | TracksSelectOwner string
  | TracksUpdatePublished string
  | TracksDelete string
  | PublishedInsert string string
  | PublishedSelectFeed
  | LikesSelect string string
  | LikesDelete string string
  | LikesInsert string string
  | RpcDecrementLikes string
  | RpcIncrementLikes string
  | SunoGenerate generate_payload
  | SunoRecordInfo string

fun is_vendor_call :: "call \<Rightarrow> bool" where
  "is_vendor_call (SunoGenerate p) = True"
| "is_vendor_call (SunoRecordInfo t) = True"
| "is_vendor_call c = False"

fun is_generate_call :: "call \<Rightarrow> bool" where
  "is_generate_call (SunoGenerate p) = True"
| "is_generate_call c = False"



text \<open>
  What the environment does during one request: whether the rate limiter blocks it, what
  the identity provider answers for a token, which of the request's store calls fail
  (numbered from 0 in the order the handler issues them; a failed call changes nothing and
  reports an error), what the vendor answers, the store's clock, the id it gives to a
  new row, and the value of \<^verbatim>\<open>NODE_ENV\<close>.
\<close>

record song_fields =
  audioUrl :: jsval
  streamAudioUrl :: jsval
  imageUrl :: jsval
  song_title :: jsval
  lyrics :: jsval
  duration :: jsval

record record_info =
  code_r :: jsval
  msg_r :: jsval
  status_r :: jsval
  response_r :: "song_fields list option option"

datatype status_result = StatusRejects | StatusNoBody | StatusResolves record_info

record env =
  limiter_blocks :: bool
  get_user :: "string \<Rightarrow> idp_result"
  store_fault :: "nat \<Rightarrow> bool"
  suno_generate :: "generate_payload \<Rightarrow> vendor_result"
  suno_record_info :: "string \<Rightarrow> status_result"
  now :: nat
  fresh_id :: string
  node_env :: "string option"

section \<open>Responses\<close>

text \<open>
  The value of \<^verbatim>\<open>DAILY_LIMITS[plan] || 2\<close>: a number, or a member inherited from
  \<^verbatim>\<open>Object.prototype\<close> (a function or an object).
\<close>

datatype limit_val = LimitNum int | LimitInherited

datatype message = Text string | TypeErrorMessage

record task_output =
  first_song :: "song_fields option"
  songs :: "song_fields list"

datatype resp_body =
    ErrorBody string
  | TooManyRequestsBody
  | NotFoundBody
  | HealthBody
  | RootBody
  | DailyLimitBody limit_val int
  | GenerationFailedBody message
  | GeneratedBody string int
  | TaskStatusBody jsval jsval string jsval "task_output option"
  | TrackSavedBody track_row
  | TracksBody "track_row list"
  | UserBody user_row
  | FeedBody "(published_row \<times> track_row option) list"
  | SuccessBody
  | LikedBody bool
  | NoContentBody
  | InternalErrorBody "string option"

record response =
  status :: nat
  body :: resp_body

type_synonym outcome = "response \<times> store \<times> call list"

section \<open>POST /api/generate-music\<close>

text \<open>
  \<^verbatim>\<open>DAILY_LIMITS\<close> is an object literal with four own properties. A property read with any
  other key follows the prototype chain: the names of the members of \<^verbatim>\<open>Object.prototype\<close>
  read as those members, every other key reads as \<^verbatim>\<open>undefined\<close>.
\<close>

datatype property = OwnNumber int | InheritedMember | NoProperty

definition object_prototype_names :: "string list" where
  "object_prototype_names =
     [''constructor'', ''__defineGetter__'', ''__defineSetter__'', ''hasOwnProperty'',
      ''__lookupGetter__'', ''__lookupSetter__'', ''isPrototypeOf'', ''propertyIsEnumerable'',
      ''toString'', ''valueOf'', ''__proto__'', ''toLocaleString'']"

definition DAILY_LIMITS :: "string \<Rightarrow> property" where
  "DAILY_LIMITS k =
     (if k = ''free'' then OwnNumber 2
      else if k = ''starter'' then OwnNumber 10
      else if k = ''pro'' then OwnNumber 25
      else if k = ''unlimited'' then OwnNumber 100
      else if k \<in> set object_prototype_names then InheritedMember
      else NoProperty)"

text \<open>\<^verbatim>\<open>const limit = DAILY_LIMITS[user.current_plan] || 2\<close>\<close>

definition daily_limit :: "string \<Rightarrow> limit_val" where
  "daily_limit plan = (case DAILY_LIMITS plan of
       OwnNumber n \<Rightarrow> (if n \<noteq> 0 then LimitNum n else LimitNum 2)
     | InheritedMember \<Rightarrow> LimitInherited
     | NoProperty \<Rightarrow> LimitNum 2)"

text \<open>
  \<^verbatim>\<open>user.used_points_today >= limit\<close>: a function or an object converts to NaN, and every
  comparison with NaN is false.
\<close>

definition at_or_over :: "int \<Rightarrow> limit_val \<Rightarrow> bool" where
  "at_or_over used limit = (case limit of LimitNum n \<Rightarrow> n \<le> used | LimitInherited \<Rightarrow> False)"

definition select_user :: "env \<Rightarrow> store \<Rightarrow> string \<Rightarrow> user_row option" where
  "select_user env st uid =
     (if store_fault env 0 then None else single (filter (\<lambda>r. id_u r = uid) (users st)))"

text \<open>
  \<^verbatim>\<open>customLyrics?.trim() || fullPrompt\<close>: undefined and null short-circuit; a string is
  trimmed and used when the result is not empty; any other value has no \<^verbatim>\<open>trim\<close> method and
  the call throws a TypeError (the result None).
\<close>

definition lyrics_or :: "jsval \<Rightarrow> string \<Rightarrow> string option" where
  "lyrics_or customLyrics fullPrompt = (case customLyrics of
       JUndefined \<Rightarrow> Some fullPrompt
     | JNull \<Rightarrow> Some fullPrompt
     | JStr s \<Rightarrow> Some (if trim s \<noteq> [] then trim s else fullPrompt)
     | JBool b \<Rightarrow> None
     | JNum n \<Rightarrow> None)"

definition full_prompt :: "jsval \<Rightarrow> jsval \<Rightarrow> jsval \<Rightarrow> string" where
  "full_prompt genre mood prompt_f =
     trim (to_string genre @ '' music with '' @ to_string mood @ '' vibes. ''
           @ to_string (if truthy prompt_f then prompt_f else JStr []))"

definition deduct_credit :: "user_row \<Rightarrow> string \<Rightarrow> store \<Rightarrow> store" where
  "deduct_credit user uid st =
     st\<lparr>users := map (\<lambda>r. if id_u r = uid
                            then r\<lparr>total_points := total_points user - 1,
                                   used_points_today := used_points_today user + 1,
                                   total_generations := total_generations user + 1\<rparr>
                            else r) (users st)\<rparr>"

definition generate_music :: "env \<Rightarrow> store \<Rightarrow> string \<Rightarrow> json_object \<Rightarrow> outcome" where
  "generate_music env st uid b =
     (let genre = field b ''genre''; mood = field b ''mood''; prompt_f = field b ''prompt'';
          isInstrumental = field b ''isInstrumental''; customLyrics = field b ''customLyrics'';
          sel = UsersSelect uid
      in case select_user env st uid of
           None \<Rightarrow> (\<lparr>status = 404, body = ErrorBody ''User profile not found''\<rparr>, st, [sel])
         | Some user \<Rightarrow>
             let limit = daily_limit (current_plan user) in
             if at_or_over (used_points_today user) limit
             then (\<lparr>status = 403, body = DailyLimitBody limit (used_points_today user)\<rparr>, st, [sel])
             else if total_points user \<le> 0
             then (\<lparr>status = 403, body = ErrorBody ''No credits remaining''\<rparr>, st, [sel])
             else
               (case lyrics_or customLyrics (full_prompt genre mood prompt_f) of
                  None \<Rightarrow> (\<lparr>status = 500, body = GenerationFailedBody TypeErrorMessage\<rparr>, st, [sel])
                | Some p \<Rightarrow>
                    let payload = \<lparr>customMode = True, instrumental = isInstrumental,
                                   model = ''V4_5'', callBackUrl = [], prompt = p,
                                   style = to_string genre @ '', '' @ to_string mood,
                                   title = to_string genre @ '' '' @ to_string mood @ '' Track''\<rparr>
                    in (case suno_generate env payload of
                          VendorRejects m em \<Rightarrow>
                            (\<lparr>status = 500,
                              body = GenerationFailedBody
                                (Text (case m of None \<Rightarrow> em | Some s \<Rightarrow> if s \<noteq> [] then s else em))\<rparr>,
                             st, [sel, SunoGenerate payload])
                        | VendorResolves None \<Rightarrow>
                            (\<lparr>status = 500,
                              body = GenerationFailedBody (Text ''No task ID returned from Suno API'')\<rparr>,
                             st, [sel, SunoGenerate payload])
                        | VendorResolves (Some taskId) \<Rightarrow>
                            if taskId = []
                            then (\<lparr>status = 500,
                                   body = GenerationFailedBody (Text ''No task ID returned from Suno API'')\<rparr>,
                                  st, [sel, SunoGenerate payload])
                            else (\<lparr>status = 200,
                                   body = GeneratedBody taskId (total_points user - 1)\<rparr>,
                                  (if store_fault env 1 then st else deduct_credit user uid st),
                                  [sel, SunoGenerate payload,
                                   UsersUpdateCredits uid (total_points user - 1)
                                     (used_points_today user + 1) (total_generations user + 1)]))))"


section \<open>The authentication guard\<close>

text \<open>
  \<^verbatim>\<open>authHeader.split('Bearer ')[1]\<close> for a header that starts with the prefix: the text
  between the first and the second occurrence of the separator.
\<close>

fun up_to :: "string \<Rightarrow> string \<Rightarrow> string" where
  "up_to sep [] = []"
| "up_to sep (c # cs) = (if startsWith (c # cs) sep then [] else c # up_to sep cs)"

definition bearer_token :: "string \<Rightarrow> string" where
  "bearer_token authHeader = up_to ''Bearer '' (drop 7 authHeader)"

text \<open>
  The middleware either responds itself or calls the route's handler with the verified
  user's id (\<^verbatim>\<open>req.user.id\<close>). The handler's store calls are numbered on their own; the
  call to the identity provider is not a store call.
\<close>

definition authenticateUser :: "env \<Rightarrow> store \<Rightarrow> string option \<Rightarrow> (string \<Rightarrow> outcome) \<Rightarrow> outcome" where
  "authenticateUser env st authHeader next_handler =
     (case authHeader of
        None \<Rightarrow> (\<lparr>status = 401, body = ErrorBody ''No token provided''\<rparr>, st, [])
      | Some h \<Rightarrow>
          if h = [] \<or> \<not> startsWith h ''Bearer ''
          then (\<lparr>status = 401, body = ErrorBody ''No token provided''\<rparr>, st, [])
          else
            let token = bearer_token h in
            (case get_user env token of
               IdpThrows \<Rightarrow>
                 (\<lparr>status = 401, body = ErrorBody ''Authentication failed''\<rparr>, st, [AuthGetUser token])
             | IdpError \<Rightarrow>
                 (\<lparr>status = 401, body = ErrorBody ''Invalid token''\<rparr>, st, [AuthGetUser token])
             | IdpNoUser \<Rightarrow>
                 (\<lparr>status = 401, body = ErrorBody ''Invalid token''\<rparr>, st, [AuthGetUser token])
             | IdpUser uid \<Rightarrow>
                 (case next_handler uid of (r, st', cs) \<Rightarrow> (r, st', AuthGetUser token # cs))))"

section \<open>GET /api/task/:taskId\<close>

definition task_status :: "env \<Rightarrow> store \<Rightarrow> string \<Rightarrow> outcome" where
  "task_status env st taskId =
     (case suno_record_info env taskId of
        StatusRejects \<Rightarrow>
          (\<lparr>status = 500, body = ErrorBody ''Failed to check status''\<rparr>, st, [SunoRecordInfo taskId])
      | StatusNoBody \<Rightarrow>
          (\<lparr>status = 500, body = ErrorBody ''Failed to check status''\<rparr>, st, [SunoRecordInfo taskId])
      | StatusResolves sunoData \<Rightarrow>
          (\<lparr>status = 200,
            body = TaskStatusBody (code_r sunoData)
                     (if truthy (msg_r sunoData) then msg_r sunoData else JStr ''Success'')
                     taskId
                     (if truthy (status_r sunoData) then status_r sunoData else JStr ''PENDING'')
                     (case response_r sunoData of
                        None \<Rightarrow> None
                      | Some sd \<Rightarrow>
                          Some \<lparr>first_song = (case sd of Some (x # xs) \<Rightarrow> Some x | _ \<Rightarrow> None),
                                songs = (case sd of Some xs \<Rightarrow> xs | None \<Rightarrow> [])\<rparr>)\<rparr>,
           st, [SunoRecordInfo taskId]))"

section \<open>POST /api/tracks and GET /api/tracks\<close>

definition to_lower :: "char \<Rightarrow> char" where
  "to_lower c =
     (let n = (of_char c :: nat)
      in if (65 \<le> n \<and> n \<le> 90) \<or> (192 \<le> n \<and> n \<le> 222 \<and> n \<noteq> 215) then char_of (n + 32) else c)"

text \<open>
  \<^verbatim>\<open>x?.toLowerCase()\<close>: undefined for undefined and null, the lower-cased string for a
  string, a TypeError (None) for any other value.
\<close>

definition lower_case :: "jsval \<Rightarrow> jsval option" where
  "lower_case v = (case v of
       JUndefined \<Rightarrow> Some JUndefined
     | JNull \<Rightarrow> Some JUndefined
     | JStr s \<Rightarrow> Some (JStr (map to_lower s))
     | JBool b \<Rightarrow> None
     | JNum n \<Rightarrow> None)"

definition tag_list :: "jsval list \<Rightarrow> string list" where
  "tag_list vs = concat (map (\<lambda>v. case v of JStr s \<Rightarrow> (if s \<noteq> [] then [s] else []) | _ \<Rightarrow> []) vs)"

text \<open>
  The inserted row: a property whose value is undefined is not sent, so that its column
  keeps the store's default; the id, the creation time, the publish flag and the like
  counter are set by the store.
\<close>

definition track_columns :: "json_object \<Rightarrow> json_object" where
  "track_columns b =
     (\<lambda>k. if k \<in> set [''title'', ''genre'', ''mood'', ''duration'', ''audio_url'', ''image_url'', ''task_id'']
          then b k
          else if k = ''prompt''
          then Some (if truthy (field b ''prompt'') then field b ''prompt'' else JStr [])
          else None)"

definition save_track :: "env \<Rightarrow> store \<Rightarrow> string \<Rightarrow> json_object \<Rightarrow> outcome" where
  "save_track env st uid b =
     (case (lower_case (field b ''genre''), lower_case (field b ''mood'')) of
        (Some g, Some m) \<Rightarrow>
          if store_fault env 0
          then (\<lparr>status = 500, body = ErrorBody ''Failed to save track''\<rparr>, st, [TracksInsert uid])
          else
            let row = \<lparr>id_t = fresh_id env, user_id_t = uid, is_published = False, likes = 0,
                       created_at = now env, tags = tag_list [g, m], columns_t = track_columns b\<rparr>
            in (\<lparr>status = 200, body = TrackSavedBody row\<rparr>,
                st\<lparr>tracks := tracks st @ [row]\<rparr>, [TracksInsert uid])
      | _ \<Rightarrow> (\<lparr>status = 500, body = ErrorBody ''Failed to save track''\<rparr>, st, []))"

definition list_tracks :: "env \<Rightarrow> store \<Rightarrow> string \<Rightarrow> outcome" where
  "list_tracks env st uid =
     (if store_fault env 0
      then (\<lparr>status = 500, body = ErrorBody ''Failed to fetch tracks''\<rparr>, st, [TracksSelectByUser uid])
      else (\<lparr>status = 200,
             body = TracksBody (rev (sort_key created_at (filter (\<lambda>t. user_id_t t = uid) (tracks st))))\<rparr>,
            st, [TracksSelectByUser uid]))"

section \<open>GET /api/profile and PATCH /api/profile\<close>

definition get_profile :: "env \<Rightarrow> store \<Rightarrow> string \<Rightarrow> outcome" where
  "get_profile env st uid =
     (case select_user env st uid of
        None \<Rightarrow> (\<lparr>status = 500, body = ErrorBody ''Failed to fetch profile''\<rparr>, st, [UsersSelect uid])
      | Some user \<Rightarrow> (\<lparr>status = 200, body = UserBody user\<rparr>, st, [UsersSelect uid]))"

text \<open>
  The store's update of a user row with a JSON patch: a typed column takes the patch's
  value when the value has the column's type, and the whole update is rejected (None)
  when it has not; every other property of the patch is stored under its name; a column
  the patch does not name keeps its value.
\<close>

definition typed_columns :: "string list" where
  "typed_columns = [''id'', ''email'', ''current_plan'', ''total_points'', ''used_points_today'',
                    ''total_generations'']"

definition text_column :: "json_object \<Rightarrow> string \<Rightarrow> string \<Rightarrow> string option" where
  "text_column p k cur = (case p k of None \<Rightarrow> Some cur | Some (JStr s) \<Rightarrow> Some s | Some _ \<Rightarrow> None)"

definition int_column :: "json_object \<Rightarrow> string \<Rightarrow> int \<Rightarrow> int option" where
  "int_column p k cur = (case p k of None \<Rightarrow> Some cur | Some (JNum n) \<Rightarrow> Some n | Some _ \<Rightarrow> None)"

definition apply_patch :: "json_object \<Rightarrow> user_row \<Rightarrow> user_row option" where
  "apply_patch p r =
     (case (text_column p ''id'' (id_u r), text_column p ''email'' (email r),
            text_column p ''current_plan'' (current_plan r),
            int_column p ''total_points'' (total_points r),
            int_column p ''used_points_today'' (used_points_today r),
            int_column p ''total_generations'' (total_generations r)) of
        (Some i, Some e, Some c, Some tp, Some up, Some tg) \<Rightarrow>
          Some \<lparr>id_u = i, email = e, current_plan = c, total_points = tp, used_points_today = up,
                total_generations = tg,
                other_columns = other_columns r ++ (p |` (- set typed_columns))\<rparr>
      | _ \<Rightarrow> None)"

definition patch_row :: "json_object \<Rightarrow> user_row \<Rightarrow> user_row" where
  "patch_row p r = (case apply_patch p r of None \<Rightarrow> r | Some r' \<Rightarrow> r')"

text \<open>The value of a column of a user row, as JSON.\<close>

definition column :: "user_row \<Rightarrow> string \<Rightarrow> jsval option" where
  "column r k =
     (if k = ''id'' then Some (JStr (id_u r))
      else if k = ''email'' then Some (JStr (email r))
      else if k = ''current_plan'' then Some (JStr (current_plan r))
      else if k = ''total_points'' then Some (JNum (total_points r))
      else if k = ''used_points_today'' then Some (JNum (used_points_today r))
      else if k = ''total_generations'' then Some (JNum (total_generations r))
      else other_columns r k)"

text \<open>\<^verbatim>\<open>const updates = { ...req.body }\<close> followed by the four \<^verbatim>\<open>delete\<close> statements.\<close>

definition strip_protected :: "json_object \<Rightarrow> json_object" where
  "strip_protected b = b(''id'' := None, ''email'' := None, ''total_points'' := None,
                         ''used_points_today'' := None)"

definition update_profile :: "env \<Rightarrow> store \<Rightarrow> string \<Rightarrow> json_object \<Rightarrow> outcome" where
  "update_profile env st uid b =
     (let updates = strip_protected b;
          matching = filter (\<lambda>r. id_u r = uid) (users st)
      in if store_fault env 0 \<or> list_ex (\<lambda>r. apply_patch updates r = None) matching
         then (\<lparr>status = 500, body = ErrorBody ''Failed to update profile''\<rparr>, st, [UsersUpdate uid])
         else
           let st' = st\<lparr>users := map (\<lambda>r. if id_u r = uid then patch_row updates r else r) (users st)\<rparr>
           in (case single (map (patch_row updates) matching) of
                 None \<Rightarrow>
                   (\<lparr>status = 500, body = ErrorBody ''Failed to update profile''\<rparr>, st', [UsersUpdate uid])
               | Some user \<Rightarrow> (\<lparr>status = 200, body = UserBody user\<rparr>, st', [UsersUpdate uid])))"


section \<open>GET /api/feed\<close>

text \<open>
  The 25 newest rows of \<^verbatim>\<open>published_tracks\<close>, newest first, each with the track it refers
  to (null when there is none). The handler is registered without the authentication guard.
\<close>

definition feed :: "env \<Rightarrow> store \<Rightarrow> outcome" where
  "feed env st =
     (if store_fault env 0
      then (\<lparr>status = 500, body = ErrorBody ''Failed to fetch feed''\<rparr>, st, [PublishedSelectFeed])
      else (\<lparr>status = 200,
             body = FeedBody (map (\<lambda>p. (p, find (\<lambda>t. id_t t = track_id_p p) (tracks st)))
                                  (take 25 (rev (sort_key published_at (published_tracks st)))))\<rparr>,
            st, [PublishedSelectFeed]))"

section \<open>Publish, like and delete\<close>

definition select_owner :: "env \<Rightarrow> store \<Rightarrow> string \<Rightarrow> track_row option" where
  "select_owner env st trackId =
     (if store_fault env 0 then None else single (filter (\<lambda>t. id_t t = trackId) (tracks st)))"

text \<open>\<^verbatim>\<open>track?.user_id !== req.user!.id\<close>: with no track the left side is undefined.\<close>

definition not_owner :: "track_row option \<Rightarrow> string \<Rightarrow> bool" where
  "not_owner track uid = (case track of None \<Rightarrow> True | Some t \<Rightarrow> user_id_t t \<noteq> uid)"

definition set_published :: "string \<Rightarrow> store \<Rightarrow> store" where
  "set_published trackId st =
     st\<lparr>tracks := map (\<lambda>t. if id_t t = trackId then t\<lparr>is_published := True\<rparr> else t) (tracks st)\<rparr>"

definition insert_published :: "string \<Rightarrow> string \<Rightarrow> nat \<Rightarrow> store \<Rightarrow> store" where
  "insert_published trackId uid t st =
     st\<lparr>published_tracks := published_tracks st
           @ [\<lparr>track_id_p = trackId, user_id_p = uid, published_at = t\<rparr>]\<rparr>"

definition publish_track :: "env \<Rightarrow> store \<Rightarrow> string \<Rightarrow> string \<Rightarrow> outcome" where
  "publish_track env st uid trackId =
     (if not_owner (select_owner env st trackId) uid
      then (\<lparr>status = 403, body = ErrorBody ''Not your track''\<rparr>, st, [TracksSelectOwner trackId])
      else
        let st1 = (if store_fault env 1 then st else set_published trackId st);
            st2 = (if store_fault env 2 then st1 else insert_published trackId uid (now env) st1)
        in (\<lparr>status = 200, body = SuccessBody\<rparr>, st2,
            [TracksSelectOwner trackId, TracksUpdatePublished trackId, PublishedInsert trackId uid]))"

definition delete_track :: "env \<Rightarrow> store \<Rightarrow> string \<Rightarrow> string \<Rightarrow> outcome" where
  "delete_track env st uid trackId =
     (if not_owner (select_owner env st trackId) uid
      then (\<lparr>status = 403, body = ErrorBody ''Not your track''\<rparr>, st, [TracksSelectOwner trackId])
      else
        (\<lparr>status = 200, body = SuccessBody\<rparr>,
         (if store_fault env 1 then st
          else st\<lparr>tracks := filter (\<lambda>t. id_t t \<noteq> trackId) (tracks st)\<rparr>),
         [TracksSelectOwner trackId, TracksDelete trackId]))"

text \<open>
  Modelled from the spec: the store functions \<^verbatim>\<open>increment_likes\<close> and \<^verbatim>\<open>decrement_likes\<close>
  that the like handler calls by name are not in the source; the specification describes
  them as an increment and a decrement of the track's like counter.
\<close>

definition increment_likes :: "string \<Rightarrow> store \<Rightarrow> store" where
  "increment_likes trackId st =
     st\<lparr>tracks := map (\<lambda>t. if id_t t = trackId then t\<lparr>likes := likes t + 1\<rparr> else t) (tracks st)\<rparr>"

definition decrement_likes :: "string \<Rightarrow> store \<Rightarrow> store" where
  "decrement_likes trackId st =
     st\<lparr>tracks := map (\<lambda>t. if id_t t = trackId then t\<lparr>likes := likes t - 1\<rparr> else t) (tracks st)\<rparr>"

definition is_like_of :: "string \<Rightarrow> string \<Rightarrow> like_row \<Rightarrow> bool" where
  "is_like_of uid trackId l = (user_id_l l = uid \<and> track_id_l l = trackId)"

definition like_track :: "env \<Rightarrow> store \<Rightarrow> string \<Rightarrow> string \<Rightarrow> outcome" where
  "like_track env st uid trackId =
     (let existing = (if store_fault env 0 then None
                      else single (filter (is_like_of uid trackId) (track_likes st)))
      in case existing of
           Some l \<Rightarrow>
             let st1 = (if store_fault env 1 then st
                        else st\<lparr>track_likes := filter (\<lambda>l. \<not> is_like_of uid trackId l) (track_likes st)\<rparr>);
                 st2 = (if store_fault env 2 then st1 else decrement_likes trackId st1)
             in (\<lparr>status = 200, body = LikedBody False\<rparr>, st2,
                 [LikesSelect uid trackId, LikesDelete uid trackId, RpcDecrementLikes trackId])
         | None \<Rightarrow>
             let st1 = (if store_fault env 1 then st
                        else st\<lparr>track_likes := track_likes st
                                  @ [\<lparr>user_id_l = uid, track_id_l = trackId\<rparr>]\<rparr>);
                 st2 = (if store_fault env 2 then st1 else increment_likes trackId st1)
             in (\<lparr>status = 200, body = LikedBody True\<rparr>, st2,
                 [LikesSelect uid trackId, LikesInsert uid trackId, RpcIncrementLikes trackId]))"

section \<open>The middleware chain and the routes\<close>

text \<open>
  A request as the application receives it: the method, the path as its list of segments,
  the \<^verbatim>\<open>Authorization\<close> header and what the JSON body parser makes of the body (an object,
  or an error for a malformed or oversized body). The middleware runs in the order of
  registration: the header middleware, the cross-origin middleware, which answers every
  \<^verbatim>\<open>OPTIONS\<close> request itself with 204, the JSON body parser, whose error goes straight to
  the error handler at the end of the file (500), the rate limiter mounted on \<^verbatim>\<open>/api/\<close>,
  and only then the routes. A path that no route matches gets the framework's 404.
\<close>

datatype http_method = GET | HEAD | POST | PUT | PATCH | DELETE | OPTIONS

datatype parsed_body = Unparsable string | Parsed json_object

record request =
  req_method :: http_method
  req_path :: "string list"
  authorization :: "string option"
  req_body :: parsed_body

datatype route =
    Health | Root | GenerateMusic | TaskStatus string | SaveTrack | ListTracks
  | GetProfile | UpdateProfile | Feed | PublishTrack string | LikeTrack string
  | DeleteTrack string | NoRoute

text \<open>
  The router matches the fixed parts of a path without regard to the case of the letters
  A to Z; a path parameter (\<^verbatim>\<open>:taskId\<close>, \<^verbatim>\<open>:trackId\<close>) is a non-empty segment, taken as it
  is. A route registered for \<^verbatim>\<open>GET\<close> also serves \<^verbatim>\<open>HEAD\<close>.
\<close>

definition ascii_lower :: "char \<Rightarrow> char" where
  "ascii_lower c =
     (case map_of (zip ''ABCDEFGHIJKLMNOPQRSTUVWXYZ'' ''abcdefghijklmnopqrstuvwxyz'') c of
        None \<Rightarrow> c
      | Some l \<Rightarrow> l)"

definition matches :: "string list \<Rightarrow> string list \<Rightarrow> bool" where
  "matches segs pattern = (map (map ascii_lower) segs = pattern)"

definition is_get :: "http_method \<Rightarrow> bool" where
  "is_get m = (m = GET \<or> m = HEAD)"

definition route_of :: "http_method \<Rightarrow> string list \<Rightarrow> route" where
  "route_of m segs =
     (if is_get m \<and> matches segs [''health''] then Health
      else if is_get m \<and> segs = [] then Root
      else if m = POST \<and> matches segs [''api'', ''generate-music''] then GenerateMusic
      else if is_get m \<and> length segs = 3 \<and> matches (take 2 segs) [''api'', ''task'']
              \<and> segs ! 2 \<noteq> []
        then TaskStatus (segs ! 2)
      else if m = POST \<and> matches segs [''api'', ''tracks''] then SaveTrack
      else if is_get m \<and> matches segs [''api'', ''tracks''] then ListTracks
      else if is_get m \<and> matches segs [''api'', ''profile''] then GetProfile
      else if m = PATCH \<and> matches segs [''api'', ''profile''] then UpdateProfile
      else if is_get m \<and> matches segs [''api'', ''feed''] then Feed
      else if m = POST \<and> length segs = 4 \<and> matches (take 2 segs) [''api'', ''tracks'']
              \<and> segs ! 2 \<noteq> [] \<and> matches [segs ! 3] [''publish'']
        then PublishTrack (segs ! 2)
      else if m = POST \<and> length segs = 4 \<and> matches (take 2 segs) [''api'', ''tracks'']
              \<and> segs ! 2 \<noteq> [] \<and> matches [segs ! 3] [''like'']
        then LikeTrack (segs ! 2)
      else if m = DELETE \<and> length segs = 3 \<and> matches (take 2 segs) [''api'', ''tracks'']
              \<and> segs ! 2 \<noteq> []
        then DeleteTrack (segs ! 2)
      else NoRoute)"

text \<open>\<^verbatim>\<open>app.use('/api/', limiter)\<close>: the paths whose first segment is \<^verbatim>\<open>api\<close>.\<close>

definition under_api :: "string list \<Rightarrow> bool" where
  "under_api segs = (case segs of [] \<Rightarrow> False | s # rest \<Rightarrow> matches [s] [''api''])"

definition handle_route :: "env \<Rightarrow> store \<Rightarrow> request \<Rightarrow> json_object \<Rightarrow> outcome" where
  "handle_route env st req b =
     (case route_of (req_method req) (req_path req) of
          Health \<Rightarrow> (\<lparr>status = 200, body = HealthBody\<rparr>, st, [])
        | Root \<Rightarrow> (\<lparr>status = 200, body = RootBody\<rparr>, st, [])
        | GenerateMusic \<Rightarrow>
            authenticateUser env st (authorization req) (\<lambda>uid. generate_music env st uid b)
        | TaskStatus taskId \<Rightarrow>
            authenticateUser env st (authorization req) (\<lambda>uid. task_status env st taskId)
        | SaveTrack \<Rightarrow>
            authenticateUser env st (authorization req) (\<lambda>uid. save_track env st uid b)
        | ListTracks \<Rightarrow> authenticateUser env st (authorization req) (\<lambda>uid. list_tracks env st uid)
        | GetProfile \<Rightarrow> authenticateUser env st (authorization req) (\<lambda>uid. get_profile env st uid)
        | UpdateProfile \<Rightarrow>
            authenticateUser env st (authorization req) (\<lambda>uid. update_profile env st uid b)
        | Feed \<Rightarrow> feed env st
        | PublishTrack trackId \<Rightarrow>
            authenticateUser env st (authorization req) (\<lambda>uid. publish_track env st uid trackId)
        | LikeTrack trackId \<Rightarrow>
            authenticateUser env st (authorization req) (\<lambda>uid. like_track env st uid trackId)
        | DeleteTrack trackId \<Rightarrow>
            authenticateUser env st (authorization req) (\<lambda>uid. delete_track env st uid trackId)
        | NoRoute \<Rightarrow> (\<lparr>status = 404, body = NotFoundBody\<rparr>, st, []))"

definition dispatch :: "env \<Rightarrow> store \<Rightarrow> request \<Rightarrow> outcome" where
  "dispatch env st req =
     (if req_method req = OPTIONS
      then (\<lparr>status = 204, body = NoContentBody\<rparr>, st, [])
      else case req_body req of
          Unparsable msg \<Rightarrow>
            (\<lparr>status = 500,
              body = InternalErrorBody (if node_env env = Some ''development'' then Some msg else None)\<rparr>,
             st, [])
        | Parsed b \<Rightarrow>
            if under_api (req_path req) \<and> limiter_blocks env
            then (\<lparr>status = 429, body = TooManyRequestsBody\<rparr>, st, [])
            else handle_route env st req b)"

section \<open>Example environments and stores\<close>

definition quiet_env :: env where
  "quiet_env =
     \<lparr>limiter_blocks = False,
      get_user = (\<lambda>t. if t = ''tok'' then IdpUser ''u1'' else IdpError),
      store_fault = (\<lambda>k. False),
      suno_generate = (\<lambda>p. VendorResolves (Some ''task-1'')),
      suno_record_info = (\<lambda>t. StatusRejects),
      now = 7,
      fresh_id = ''n1'',
      node_env = None\<rparr>"

definition example_user :: "string \<Rightarrow> int \<Rightarrow> int \<Rightarrow> user_row" where
  "example_user plan used points =
     \<lparr>id_u = ''u1'', email = ''u1@example.org'', current_plan = plan, total_points = points,
      used_points_today = used, total_generations = 0, other_columns = Map.empty\<rparr>"

definition example_track :: track_row where
  "example_track =
     \<lparr>id_t = ''t1'', user_id_t = ''u1'', is_published = True, likes = 0, created_at = 1,
      tags = [], columns_t = Map.empty\<rparr>"

definition example_store :: "user_row \<Rightarrow> store" where
  "example_store u =
     \<lparr>users = [u], tracks = [example_track],
      published_tracks = [\<lparr>track_id_p = ''t1'', user_id_p = ''u1'', published_at = 3\<rparr>],
      track_likes = []\<rparr>"

definition example_body :: json_object where
  "example_body = [''genre'' \<mapsto> JStr ''Techno'', ''mood'' \<mapsto> JStr ''Energetic'',
                   ''prompt'' \<mapsto> JStr ''Heavy bass'', ''isInstrumental'' \<mapsto> JBool True,
                   ''customLyrics'' \<mapsto> JNull]"

definition example_payload :: "string \<Rightarrow> generate_payload" where
  "example_payload p =
     \<lparr>customMode = True, instrumental = JBool True, model = ''V4_5'', callBackUrl = [],
      prompt = p, style = ''Techno, Energetic'', title = ''Techno Energetic Track''\<rparr>"

definition lyrics_body :: "string \<Rightarrow> json_object" where
  "lyrics_body s = example_body(''customLyrics'' \<mapsto> JStr s)"



definition truncated_body_request :: request where
  "truncated_body_request = \<lparr>req_method = POST, req_path = [''api'', ''generate-music''],
                              authorization = None,
                              req_body = Unparsable ''Unexpected end of JSON input''\<rparr>"

definition liked_store :: "nat \<Rightarrow> store" where
  "liked_store n =
     \<lparr>users = [], tracks = [example_track], published_tracks = [],
      track_likes = replicate n \<lparr>user_id_l = ''u1'', track_id_l = ''t1''\<rparr>\<rparr>"

definition failing_write_env :: env where
  "failing_write_env = quiet_env\<lparr>store_fault := (\<lambda>k. k = 1)\<rparr>"

definition failing_read_env :: env where
  "failing_read_env = quiet_env\<lparr>store_fault := (\<lambda>k. k = 0)\<rparr>"

definition failing_update_env :: env where
  "failing_update_env = quiet_env\<lparr>store_fault := (\<lambda>k. k = 1)\<rparr>"

definition profile_patch :: json_object where
  "profile_patch = [''display_name'' \<mapsto> JStr ''New Name'', ''total_points'' \<mapsto> JNum 999,
                    ''id'' \<mapsto> JStr ''u2'']"

text \<open>What the claims speak about, read off an outcome.\<close>

definition sent_prompts :: "call list \<Rightarrow> string list" where
  "sent_prompts cs = concat (map (\<lambda>c. case c of SunoGenerate p \<Rightarrow> [prompt p] | _ \<Rightarrow> []) cs)"

definition has_bearer_prefix :: "string option \<Rightarrow> bool" where
  "has_bearer_prefix a = (case a of None \<Rightarrow> False | Some h \<Rightarrow> startsWith h ''Bearer '')"

definition liked :: "store \<Rightarrow> string \<Rightarrow> string \<Rightarrow> bool" where
  "liked st uid trackId = list_ex (is_like_of uid trackId) (track_likes st)"

definition like_count :: "store \<Rightarrow> string \<Rightarrow> string \<Rightarrow> nat" where
  "like_count st uid trackId = length (filter (is_like_of uid trackId) (track_likes st))"

definition published_count :: "store \<Rightarrow> string \<Rightarrow> nat" where
  "published_count st trackId = length (filter (\<lambda>p. track_id_p p = trackId) (published_tracks st))"

definition feed_listings :: "resp_body \<Rightarrow> string \<Rightarrow> nat" where
  "feed_listings bd trackId =
     (case bd of FeedBody items \<Rightarrow> length (filter (\<lambda>i. track_id_p (fst i) = trackId) items) | _ \<Rightarrow> 0)"


section \<open>Evaluating the examples\<close>

lemmas example_run_defs =
  generate_music_def quiet_env_def example_store_def example_user_def select_user_def
  single_def field_def daily_limit_def DAILY_LIMITS_def object_prototype_names_def
  at_or_over_def lyrics_or_def Let_def example_body_def full_prompt_def to_string_def
  truthy_def trim_def is_white_space_def example_payload_def failing_update_env_def
  lyrics_body_def

section \<open>The generation endpoint: which requests reach the vendor\<close>

text \<open>
  A vendor call in the trace of a generation request means that the user row was read,
  that neither check fired, and that the payload was composed from the body.
\<close>

lemma generate_vendor_called:
  assumes "SunoGenerate p \<in> set (snd (snd (generate_music env st uid b)))"
  shows "\<exists>user. select_user env st uid = Some user
           \<and> \<not> at_or_over (used_points_today user) (daily_limit (current_plan user))
           \<and> 0 < total_points user
           \<and> lyrics_or (field b ''customLyrics'')
                (full_prompt (field b ''genre'') (field b ''mood'') (field b ''prompt'')) = Some (prompt p)
           \<and> p = \<lparr>customMode = True, instrumental = field b ''isInstrumental'', model = ''V4_5'',
                  callBackUrl = [], prompt = prompt p,
                  style = to_string (field b ''genre'') @ '', '' @ to_string (field b ''mood''),
                  title = to_string (field b ''genre'') @ '' '' @ to_string (field b ''mood'') @ '' Track''\<rparr>"
  using assms
  by (auto simp: generate_music_def Let_def split: option.splits if_splits vendor_result.splits)

lemma generate_no_vendor_call:
  assumes "select_user env st uid = Some user"
    and "at_or_over (used_points_today user) (daily_limit (current_plan user)) \<or> total_points user \<le> 0"
  shows "generate_music env st uid b =
           (if at_or_over (used_points_today user) (daily_limit (current_plan user))
            then (\<lparr>status = 403, body = DailyLimitBody (daily_limit (current_plan user)) (used_points_today user)\<rparr>, st, [UsersSelect uid])
            else (\<lparr>status = 403, body = ErrorBody ''No credits remaining''\<rparr>, st, [UsersSelect uid]))"
  using assms by (auto simp: generate_music_def Let_def)

lemma generate_success:
  assumes "SunoGenerate p \<in> set (snd (snd (generate_music env st uid b)))"
    and "suno_generate env p = VendorResolves (Some taskId)" and "taskId \<noteq> []"
  shows "\<exists>user. select_user env st uid = Some user \<and>
      generate_music env st uid b =
        (\<lparr>status = 200, body = GeneratedBody taskId (total_points user - 1)\<rparr>,
         (if store_fault env 1 then st else deduct_credit user uid st),
         [UsersSelect uid, SunoGenerate p,
          UsersUpdateCredits uid (total_points user - 1) (used_points_today user + 1)
            (total_generations user + 1)])"
proof -
  from generate_vendor_called [OF assms(1)] obtain user where
    u: "select_user env st uid = Some user"
       "\<not> at_or_over (used_points_today user) (daily_limit (current_plan user))"
       "0 < total_points user"
       "lyrics_or (field b ''customLyrics'')
                (full_prompt (field b ''genre'') (field b ''mood'') (field b ''prompt'')) = Some (prompt p)"
       "p = \<lparr>customMode = True, instrumental = field b ''isInstrumental'', model = ''V4_5'',
                  callBackUrl = [], prompt = prompt p,
                  style = to_string (field b ''genre'') @ '', '' @ to_string (field b ''mood''),
                  title = to_string (field b ''genre'') @ '' '' @ to_string (field b ''mood'') @ '' Track''\<rparr>"
    by blast
  from u(5) assms(2) have v: "suno_generate env \<lparr>customMode = True, instrumental = field b ''isInstrumental'', model = ''V4_5'',
                  callBackUrl = [], prompt = prompt p,
                  style = to_string (field b ''genre'') @ '', '' @ to_string (field b ''mood''),
                  title = to_string (field b ''genre'') @ '' '' @ to_string (field b ''mood'') @ '' Track''\<rparr> = VendorResolves (Some taskId)" by simp
  have "generate_music env st uid b =
        (\<lparr>status = 200, body = GeneratedBody taskId (total_points user - 1)\<rparr>,
         (if store_fault env 1 then st else deduct_credit user uid st),
         [UsersSelect uid, SunoGenerate p,
          UsersUpdateCredits uid (total_points user - 1) (used_points_today user + 1)
            (total_generations user + 1)])"
    using u(1-4) v assms(3) u(5) [symmetric]
    by (simp add: generate_music_def Let_def)
  with u(1) show ?thesis by blast
qed

text \<open>
  For a plan whose name is not a member of \<^verbatim>\<open>Object.prototype\<close> the quota is the table's
  entry, 2 for a plan outside the table, and a user at or over it is answered 403 with the
  limit and the used count before any vendor call.
\<close>

lemma daily_limit_table:
  assumes "plan \<notin> set object_prototype_names"
  shows "daily_limit plan =
           LimitNum (if plan = ''free'' then 2 else if plan = ''starter'' then 10
                     else if plan = ''pro'' then 25 else if plan = ''unlimited'' then 100 else 2)"
  using assms by (simp add: daily_limit_def DAILY_LIMITS_def)

lemma daily_quota_forbidden:
  assumes "select_user env st uid = Some user"
    and "current_plan user \<notin> set object_prototype_names"
    and "daily_limit (current_plan user) = LimitNum quota"
    and "quota \<le> used_points_today user"
  shows "generate_music env st uid b =
           (\<lparr>status = 403, body = DailyLimitBody (LimitNum quota) (used_points_today user)\<rparr>,
            st, [UsersSelect uid])"
  using assms generate_no_vendor_call [of env st uid user b] by (simp add: at_or_over_def)

text \<open>
  Claim C1, at a plan the table does not list. The user's plan is \<^verbatim>\<open>constructor\<close>, the
  used-today count 5 is over the default quota 2, and three credits remain: the lookup
  \<^verbatim>\<open>DAILY_LIMITS[user.current_plan]\<close> reads the inherited \<^verbatim>\<open>Object\<close> function, \<^verbatim>\<open>|| 2\<close>
  keeps it, the comparison with the used count is false, and the request goes on to the
  vendor and is answered 200.
\<close>

theorem inherited_plan_exceeds_quota:
  "current_plan (example_user ''constructor'' 5 3) \<notin> {''free'', ''starter'', ''pro'', ''unlimited''}
   \<and> 2 \<le> used_points_today (example_user ''constructor'' 5 3)
   \<and> select_user quiet_env (example_store (example_user ''constructor'' 5 3)) ''u1''
        = Some (example_user ''constructor'' 5 3)
   \<and> fst (generate_music quiet_env (example_store (example_user ''constructor'' 5 3)) ''u1'' Map.empty)
        = \<lparr>status = 200, body = GeneratedBody ''task-1'' 2\<rparr>
   \<and> list_ex is_generate_call
        (snd (snd (generate_music quiet_env (example_store (example_user ''constructor'' 5 3)) ''u1'' Map.empty)))"
  by (simp add: generate_music_def quiet_env_def example_store_def example_user_def select_user_def
      single_def field_def daily_limit_def DAILY_LIMITS_def object_prototype_names_def
      at_or_over_def lyrics_or_def Let_def)

text \<open>
  Claim C2: when the user row that the handler reads has a total credit of 0 or less, the
  generation request is answered 403, whatever the used-today count and the plan are, no
  vendor call is made and the store is left as it was.
\<close>

theorem no_credit_forbidden:
  assumes "select_user env st uid = Some user" and "total_points user \<le> 0"
  shows "status (fst (generate_music env st uid b)) = 403
         \<and> \<not> list_ex is_vendor_call (snd (snd (generate_music env st uid b)))
         \<and> fst (snd (generate_music env st uid b)) = st"
  using generate_no_vendor_call [OF assms(1), of b] assms(2) by (simp split: if_splits)

theorem no_credit_forbidden_witness:
  "select_user quiet_env (example_store (example_user ''pro'' 0 0)) ''u1'' = Some (example_user ''pro'' 0 0)
   \<and> total_points (example_user ''pro'' 0 0) \<le> 0
   \<and> status (fst (generate_music quiet_env (example_store (example_user ''pro'' 0 0)) ''u1'' Map.empty)) = 403
   \<and> \<not> list_ex is_vendor_call
         (snd (snd (generate_music quiet_env (example_store (example_user ''pro'' 0 0)) ''u1'' Map.empty)))"
proof -
  have a: "select_user quiet_env (example_store (example_user ''pro'' 0 0)) ''u1'' = Some (example_user ''pro'' 0 0)"
    by (simp add: select_user_def quiet_env_def example_store_def example_user_def single_def)
  have b: "total_points (example_user ''pro'' 0 0) \<le> 0"
    by (simp add: example_user_def)
  from no_credit_forbidden [OF a b, of Map.empty] a b show ?thesis by simp
qed


text \<open>
  Claim C3: when the vendor call of a generation request resolves with a non-empty task
  id, the response is 200 with that task id and with remaining credits equal to the total
  credit of the user row read before the call, minus 1. The only store read of the request
  is the one in front of the vendor call; the value does not depend on the update that
  follows or on its outcome.
\<close>

theorem generated_response:
  assumes "SunoGenerate p \<in> set (snd (snd (generate_music env st uid b)))"
    and "suno_generate env p = VendorResolves (Some taskId)" and "taskId \<noteq> []"
  shows "\<exists>user. select_user env st uid = Some user
           \<and> fst (generate_music env st uid b)
               = \<lparr>status = 200, body = GeneratedBody taskId (total_points user - 1)\<rparr>
           \<and> snd (snd (generate_music env st uid b))
               = [UsersSelect uid, SunoGenerate p,
                  UsersUpdateCredits uid (total_points user - 1) (used_points_today user + 1)
                    (total_generations user + 1)]"
proof -
  from generate_success [OF assms] obtain user where
    "select_user env st uid = Some user" and
    "generate_music env st uid b =
        (\<lparr>status = 200, body = GeneratedBody taskId (total_points user - 1)\<rparr>,
         (if store_fault env 1 then st else deduct_credit user uid st),
         [UsersSelect uid, SunoGenerate p,
          UsersUpdateCredits uid (total_points user - 1) (used_points_today user + 1)
            (total_generations user + 1)])"
    by blast
  then show ?thesis by simp
qed

theorem generated_response_witness:
  "SunoGenerate (example_payload ''Techno music with Energetic vibes. Heavy bass'')
     \<in> set (snd (snd (generate_music quiet_env (example_store (example_user ''free'' 0 3)) ''u1'' example_body)))
   \<and> suno_generate quiet_env (example_payload ''Techno music with Energetic vibes. Heavy bass'')
       = VendorResolves (Some ''task-1'')
   \<and> fst (generate_music quiet_env (example_store (example_user ''free'' 0 3)) ''u1'' example_body)
       = \<lparr>status = 200, body = GeneratedBody ''task-1'' 2\<rparr>"
proof -
  have a: "SunoGenerate (example_payload ''Techno music with Energetic vibes. Heavy bass'')
     \<in> set (snd (snd (generate_music quiet_env (example_store (example_user ''free'' 0 3)) ''u1'' example_body)))"
    by (simp add: example_run_defs)
  have b: "suno_generate quiet_env (example_payload ''Techno music with Energetic vibes. Heavy bass'')
       = VendorResolves (Some ''task-1'')"
    by (simp add: quiet_env_def)
  have c: "select_user quiet_env (example_store (example_user ''free'' 0 3)) ''u1''
             = Some (example_user ''free'' 0 3)"
    by (simp add: example_run_defs)
  have d: "total_points (example_user ''free'' 0 3) - 1 = 2"
    by (simp add: example_user_def)
  from generated_response [OF a b] c d have
    "fst (generate_music quiet_env (example_store (example_user ''free'' 0 3)) ''u1'' example_body)
       = \<lparr>status = 200, body = GeneratedBody ''task-1'' 2\<rparr>"
    by auto
  with a b show ?thesis by simp
qed

text \<open>
  The response and the calls of a generation request do not depend on whether the credit
  update fails.
\<close>

lemma generate_response_ignores_update:
  assumes "store_fault env' 0 = store_fault env 0" and "suno_generate env' = suno_generate env"
  shows "fst (generate_music env' st uid b) = fst (generate_music env st uid b)"
    and "snd (snd (generate_music env' st uid b)) = snd (snd (generate_music env st uid b))"
  using assms
  by (simp_all add: generate_music_def select_user_def Let_def
      split: option.splits vendor_result.splits)

text \<open>
  Claim C4: when the vendor call resolves with a task id and the single update of the user
  row fails, the response is still 200 with the task id, equal to the response given when
  the update succeeds, and the store keeps the old counters.
\<close>

theorem update_failure_hidden:
  assumes "SunoGenerate p \<in> set (snd (snd (generate_music env st uid b)))"
    and "suno_generate env p = VendorResolves (Some taskId)" and "taskId \<noteq> []"
    and "store_fault env 1"
  shows "status (fst (generate_music env st uid b)) = 200
         \<and> (\<exists>n. body (fst (generate_music env st uid b)) = GeneratedBody taskId n)
         \<and> fst (snd (generate_music env st uid b)) = st
         \<and> fst (generate_music env st uid b)
             = fst (generate_music (env\<lparr>store_fault := (store_fault env)(1 := False)\<rparr>) st uid b)"
proof -
  from generate_success [OF assms(1-3)] obtain user where
    g: "generate_music env st uid b =
        (\<lparr>status = 200, body = GeneratedBody taskId (total_points user - 1)\<rparr>,
         (if store_fault env 1 then st else deduct_credit user uid st),
         [UsersSelect uid, SunoGenerate p,
          UsersUpdateCredits uid (total_points user - 1) (used_points_today user + 1)
            (total_generations user + 1)])"
    by blast
  have "fst (generate_music (env\<lparr>store_fault := (store_fault env)(1 := False)\<rparr>) st uid b)
          = fst (generate_music env st uid b)"
    by (rule generate_response_ignores_update) simp_all
  with g assms(4) show ?thesis by simp
qed

theorem update_failure_hidden_witness:
  "SunoGenerate (example_payload ''Techno music with Energetic vibes. Heavy bass'')
     \<in> set (snd (snd (generate_music failing_update_env (example_store (example_user ''free'' 0 3)) ''u1'' example_body)))
   \<and> store_fault failing_update_env 1
   \<and> status (fst (generate_music failing_update_env (example_store (example_user ''free'' 0 3)) ''u1'' example_body)) = 200
   \<and> fst (snd (generate_music failing_update_env (example_store (example_user ''free'' 0 3)) ''u1'' example_body))
       = example_store (example_user ''free'' 0 3)"
proof -
  have a: "SunoGenerate (example_payload ''Techno music with Energetic vibes. Heavy bass'')
     \<in> set (snd (snd (generate_music failing_update_env (example_store (example_user ''free'' 0 3)) ''u1'' example_body)))"
    by (simp add: example_run_defs)
  have b: "suno_generate failing_update_env (example_payload ''Techno music with Energetic vibes. Heavy bass'')
       = VendorResolves (Some ''task-1'')"
    by (simp add: quiet_env_def failing_update_env_def)
  have c: "store_fault failing_update_env 1"
    by (simp add: failing_update_env_def)
  from update_failure_hidden [OF a b _ c] have
    "status (fst (generate_music failing_update_env (example_store (example_user ''free'' 0 3)) ''u1'' example_body)) = 200
     \<and> fst (snd (generate_music failing_update_env (example_store (example_user ''free'' 0 3)) ''u1'' example_body))
       = example_store (example_user ''free'' 0 3)"
    by blast
  with a c show ?thesis by blast
qed

section \<open>The prompt sent to the vendor\<close>

lemma trim_fixed:
  assumes "s \<noteq> []" "\<not> is_white_space (hd s)" "\<not> is_white_space (last s)"
  shows "trim s = s"
proof -
  from assms(1,2) have a: "dropWhile is_white_space s = s"
    by (cases s) simp_all
  from assms(1,3) have b: "dropWhile is_white_space (rev s) = rev s"
    by (cases "rev s") (simp_all add: hd_rev [symmetric])
  show ?thesis by (simp add: trim_def a b)
qed

text \<open>
  Claim C7 as stated fails: custom lyrics with surrounding white space are not sent
  verbatim. With the lyrics \<^verbatim>\<open>" la "\<close> the prompt sent is \<^verbatim>\<open>"la"\<close>.
\<close>

theorem lyrics_not_verbatim:
  "field (lyrics_body '' la '') ''customLyrics'' = JStr '' la ''
   \<and> sent_prompts (snd (snd (generate_music quiet_env (example_store (example_user ''free'' 0 3)) ''u1''
                                (lyrics_body '' la '')))) = [''la'']
   \<and> ''la'' \<noteq> '' la ''"
  by (simp add: example_run_defs sent_prompts_def)

text \<open>
  Claim C7, amended: whenever a generation request reaches the vendor, the custom lyrics
  are absent, null or a string. The prompt sent is the lyrics with white space removed from
  both ends when that text is not empty, so lyrics that neither begin nor end with white
  space are sent verbatim; otherwise it is the trimmed text
  \<^verbatim>\<open><genre> music with <mood> vibes. <prompt>\<close>, where a missing or empty free-text prompt
  contributes nothing.
\<close>

theorem vendor_prompt:
  assumes "SunoGenerate p \<in> set (snd (snd (generate_music env st uid b)))"
  shows "(case field b ''customLyrics'' of
            JStr s \<Rightarrow>
              prompt p = (if trim s \<noteq> [] then trim s
                          else trim (to_string (field b ''genre'') @ '' music with ''
                                 @ to_string (field b ''mood'') @ '' vibes. ''
                                 @ (if truthy (field b ''prompt'') then to_string (field b ''prompt'') else [])))
          | JUndefined \<Rightarrow>
              prompt p = trim (to_string (field b ''genre'') @ '' music with ''
                                 @ to_string (field b ''mood'') @ '' vibes. ''
                                 @ (if truthy (field b ''prompt'') then to_string (field b ''prompt'') else []))
          | JNull \<Rightarrow>
              prompt p = trim (to_string (field b ''genre'') @ '' music with ''
                                 @ to_string (field b ''mood'') @ '' vibes. ''
                                 @ (if truthy (field b ''prompt'') then to_string (field b ''prompt'') else []))
          | JBool x \<Rightarrow> False
          | JNum n \<Rightarrow> False)
         \<and> (\<forall>s. field b ''customLyrics'' = JStr s \<and> s \<noteq> [] \<and> \<not> is_white_space (hd s)
                  \<and> \<not> is_white_space (last s) \<longrightarrow> prompt p = s)"
proof -
  from generate_vendor_called [OF assms] have
    l: "lyrics_or (field b ''customLyrics'')
          (full_prompt (field b ''genre'') (field b ''mood'') (field b ''prompt'')) = Some (prompt p)"
    by blast
  have t: "full_prompt (field b ''genre'') (field b ''mood'') (field b ''prompt'')
           = trim (to_string (field b ''genre'') @ '' music with ''
                                 @ to_string (field b ''mood'') @ '' vibes. ''
                                 @ (if truthy (field b ''prompt'') then to_string (field b ''prompt'') else []))"
    by (simp add: full_prompt_def to_string_def)
  from l show ?thesis
    unfolding t
    by (cases "field b ''customLyrics''") (auto simp: lyrics_or_def trim_fixed)
qed

theorem vendor_prompt_witness:
  "SunoGenerate (example_payload ''la la'')
     \<in> set (snd (snd (generate_music quiet_env (example_store (example_user ''free'' 0 3)) ''u1''
                        (lyrics_body ''la la''))))
   \<and> field (lyrics_body ''la la'') ''customLyrics'' = JStr ''la la''
   \<and> \<not> is_white_space (hd ''la la'') \<and> \<not> is_white_space (last ''la la'')
   \<and> prompt (example_payload ''la la'') = ''la la''"
proof -
  have a: "SunoGenerate (example_payload ''la la'')
     \<in> set (snd (snd (generate_music quiet_env (example_store (example_user ''free'' 0 3)) ''u1''
                        (lyrics_body ''la la''))))"
    by (simp add: example_run_defs)
  have b: "field (lyrics_body ''la la'') ''customLyrics'' = JStr ''la la''"
    by (simp add: lyrics_body_def field_def)
  have c: "\<not> is_white_space (hd ''la la'') \<and> \<not> is_white_space (last ''la la'')"
    by (simp add: is_white_space_def)
  from vendor_prompt [OF a, THEN conjunct2, rule_format, of "''la la''"] b c
  have "prompt (example_payload ''la la'') = ''la la''"
    by blast
  with a b c show ?thesis by blast
qed

section \<open>The authentication guard and the routes\<close>





lemma matches_literal:
  "matches [''api'', ''feed''] [''api'', ''feed'']"
  "matches [''api'', ''generate-music''] [''api'', ''generate-music'']"
  "matches [''api''] [''api'']"
  "\<not> matches [''api'', ''feed''] [''health'']"
  "\<not> matches [''api'', ''generate-music''] [''health'']"
  by (simp_all add: matches_def ascii_lower_def)

lemma matches_upper: "matches [''API'', ''Feed''] [''api'', ''feed'']"
  by (simp add: matches_def ascii_lower_def)

lemma example_routes:
  "route_of GET [''api'', ''feed''] = Feed"
  "route_of POST [''api'', ''generate-music''] = GenerateMusic"
  "under_api [''api'', ''feed'']"
  "under_api [''api'', ''generate-music'']"
  by (simp_all add: route_of_def under_api_def is_get_def matches_def ascii_lower_def)


text \<open>
  The exits in front of the guard: the cross-origin middleware answers an \<^verbatim>\<open>OPTIONS\<close>
  request with 204, a body that the JSON parser rejects is answered 500 by the error
  handler, and a request that the rate limiter blocks is answered 429. None of them calls
  the identity provider, the store or the vendor. The last lemma is a request for the
  generation route without a token and with a truncated JSON body: it is answered 500.
\<close>

lemma preflight_answered:
  "req_method req = OPTIONS \<Longrightarrow>
     dispatch env st req = (\<lparr>status = 204, body = NoContentBody\<rparr>, st, [])"
  by (simp add: dispatch_def)

lemma unparsable_body_answered:
  "req_method req \<noteq> OPTIONS \<Longrightarrow> req_body req = Unparsable msg \<Longrightarrow>
     dispatch env st req =
       (\<lparr>status = 500,
         body = InternalErrorBody (if node_env env = Some ''development'' then Some msg else None)\<rparr>,
        st, [])"
  by (simp add: dispatch_def)

lemma rate_limited_answered:
  "req_method req \<noteq> OPTIONS \<Longrightarrow> req_body req = Parsed b \<Longrightarrow> under_api (req_path req) \<Longrightarrow>
   limiter_blocks env \<Longrightarrow>
     dispatch env st req = (\<lparr>status = 429, body = TooManyRequestsBody\<rparr>, st, [])"
  by (simp add: dispatch_def)

lemma truncated_body_without_token:
  "route_of (req_method truncated_body_request) (req_path truncated_body_request) = GenerateMusic
   \<and> \<not> limiter_blocks quiet_env
   \<and> \<not> has_bearer_prefix (authorization truncated_body_request)
   \<and> dispatch quiet_env (example_store (example_user ''free'' 0 3)) truncated_body_request
       = (\<lparr>status = 500, body = InternalErrorBody None\<rparr>, example_store (example_user ''free'' 0 3), [])"
  by (simp add: truncated_body_request_def example_routes has_bearer_prefix_def dispatch_def
      quiet_env_def)



section \<open>Tracks that are not in the store\<close>

lemma select_owner_missing:
  "filter (\<lambda>t. id_t t = trackId) (tracks st) = [] \<Longrightarrow> select_owner env st trackId = None"
  by (simp add: select_owner_def single_def)

text \<open>
  An ownership mismatch and a failed or empty ownership read take the same branch: both
  handlers answer 403 \<^verbatim>\<open>Not your track\<close> and write nothing.
\<close>

lemma not_owner_forbidden:
  assumes "not_owner (select_owner env st trackId) uid"
  shows "delete_track env st uid trackId
           = (\<lparr>status = 403, body = ErrorBody ''Not your track''\<rparr>, st, [TracksSelectOwner trackId])"
    and "publish_track env st uid trackId
           = (\<lparr>status = 403, body = ErrorBody ''Not your track''\<rparr>, st, [TracksSelectOwner trackId])"
  using assms by (simp_all add: delete_track_def publish_track_def)

text \<open>
  Claim C6 as stated fails: a delete or publish request for a track id that has no row is
  answered 403, not 404.
\<close>

theorem delete_missing_track_forbidden:
  "filter (\<lambda>t. id_t t = ''t9'') (tracks (example_store (example_user ''free'' 0 3))) = []
   \<and> status (fst (delete_track quiet_env (example_store (example_user ''free'' 0 3)) ''u1'' ''t9'')) = 403
   \<and> status (fst (delete_track quiet_env (example_store (example_user ''free'' 0 3)) ''u1'' ''t9'')) \<noteq> 404
   \<and> status (fst (publish_track quiet_env (example_store (example_user ''free'' 0 3)) ''u1'' ''t9'')) = 403
   \<and> status (fst (publish_track quiet_env (example_store (example_user ''free'' 0 3)) ''u1'' ''t9'')) \<noteq> 404"
  by (simp add: example_store_def example_track_def delete_track_def publish_track_def
      select_owner_def quiet_env_def single_def not_owner_def)

text \<open>
  Claim C6, amended: a delete-track or publish-track request whose track id has no row in
  the store is answered 403 \<^verbatim>\<open>Not your track\<close>, the response of an ownership mismatch,
  after the one ownership read and without any write.
\<close>

theorem missing_track_forbidden:
  assumes "filter (\<lambda>t. id_t t = trackId) (tracks st) = []"
  shows "delete_track env st uid trackId
           = (\<lparr>status = 403, body = ErrorBody ''Not your track''\<rparr>, st, [TracksSelectOwner trackId])
         \<and> publish_track env st uid trackId
           = (\<lparr>status = 403, body = ErrorBody ''Not your track''\<rparr>, st, [TracksSelectOwner trackId])"
  using select_owner_missing [OF assms, of env]
  by (simp add: delete_track_def publish_track_def not_owner_def)

theorem missing_track_forbidden_witness:
  "filter (\<lambda>t. id_t t = ''t9'') (tracks (example_store (example_user ''free'' 0 3))) = []
   \<and> delete_track quiet_env (example_store (example_user ''free'' 0 3)) ''u1'' ''t9''
       = (\<lparr>status = 403, body = ErrorBody ''Not your track''\<rparr>,
          example_store (example_user ''free'' 0 3), [TracksSelectOwner ''t9''])
   \<and> publish_track quiet_env (example_store (example_user ''free'' 0 3)) ''u1'' ''t9''
       = (\<lparr>status = 403, body = ErrorBody ''Not your track''\<rparr>,
          example_store (example_user ''free'' 0 3), [TracksSelectOwner ''t9''])"
proof -
  have a: "filter (\<lambda>t. id_t t = ''t9'') (tracks (example_store (example_user ''free'' 0 3))) = []"
    by (simp add: example_store_def example_track_def)
  from missing_track_forbidden [OF a] a show ?thesis by simp
qed


section \<open>Profile updates\<close>

text \<open>
  What an accepted patch does to a row, column by column, and what the four deletions
  leave of the request body.
\<close>

lemma apply_patch_SomeD:
  assumes "apply_patch p r = Some r'"
  shows "text_column p ''id'' (id_u r) = Some (id_u r')"
    and "text_column p ''email'' (email r) = Some (email r')"
    and "text_column p ''current_plan'' (current_plan r) = Some (current_plan r')"
    and "int_column p ''total_points'' (total_points r) = Some (total_points r')"
    and "int_column p ''used_points_today'' (used_points_today r) = Some (used_points_today r')"
    and "int_column p ''total_generations'' (total_generations r) = Some (total_generations r')"
    and "other_columns r' = other_columns r ++ (p |` (- set typed_columns))"
  using assms by (auto simp: apply_patch_def split: option.splits)

lemma text_column_Some:
  "text_column p k cur = Some s \<Longrightarrow> (p k = None \<and> s = cur) \<or> p k = Some (JStr s)"
  by (auto simp: text_column_def split: option.splits jsval.splits)

lemma int_column_Some:
  "int_column p k cur = Some n \<Longrightarrow> (p k = None \<and> n = cur) \<or> p k = Some (JNum n)"
  by (auto simp: int_column_def split: option.splits jsval.splits)

lemma strip_protected_other:
  "k \<notin> {''id'', ''email'', ''total_points'', ''used_points_today''} \<Longrightarrow> strip_protected b k = b k"
  by (simp add: strip_protected_def)

lemma strip_protected_removed:
  "strip_protected b ''id'' = None" "strip_protected b ''email'' = None"
  "strip_protected b ''total_points'' = None" "strip_protected b ''used_points_today'' = None"
  by (simp_all add: strip_protected_def)

lemma apply_patch_protected:
  assumes "apply_patch (strip_protected b) r = Some r'"
  shows "id_u r' = id_u r" "email r' = email r" "total_points r' = total_points r"
    "used_points_today r' = used_points_today r"
  using apply_patch_SomeD(1,2,4,5) [OF assms]
  by (simp_all add: text_column_def int_column_def strip_protected_removed)

lemma patch_row_protected:
  shows "id_u (patch_row (strip_protected b) r) = id_u r"
    "email (patch_row (strip_protected b) r) = email r"
    "total_points (patch_row (strip_protected b) r) = total_points r"
    "used_points_today (patch_row (strip_protected b) r) = used_points_today r"
  by (simp_all add: patch_row_def apply_patch_protected split: option.splits)

lemma apply_patch_column:
  assumes "apply_patch (strip_protected b) r = Some r'"
    and "k \<notin> {''id'', ''email'', ''total_points'', ''used_points_today''}"
  shows "column r' k = (case b k of None \<Rightarrow> column r k | Some v \<Rightarrow> Some v)"
proof -
  note sb = strip_protected_other [OF assms(2), of b]
  consider (plan) "k = ''current_plan''" | (gens) "k = ''total_generations''"
    | (other) "k \<notin> set typed_columns"
    using assms(2) by (auto simp: typed_columns_def)
  then show ?thesis
  proof cases
    case plan
    from text_column_Some [OF apply_patch_SomeD(3) [OF assms(1)]] sb plan
    show ?thesis by (auto simp: column_def)
  next
    case gens
    from int_column_Some [OF apply_patch_SomeD(6) [OF assms(1)]] sb gens
    show ?thesis by (auto simp: column_def)
  next
    case other
    then have c: "column r' k = other_columns r' k" "column r k = other_columns r k"
      by (simp_all add: column_def typed_columns_def)
    from apply_patch_SomeD(7) [OF assms(1)] other sb
    have "other_columns r' k = (case b k of None \<Rightarrow> other_columns r k | Some v \<Rightarrow> Some v)"
      by (simp add: map_add_def restrict_map_def)
    with c show ?thesis by (cases "b k") simp_all
  qed
qed

lemma filter_patched:
  "filter (\<lambda>x. id_u x = uid)
     (map (\<lambda>r. if id_u r = uid then patch_row (strip_protected b) r else r) xs)
   = map (patch_row (strip_protected b)) (filter (\<lambda>x. id_u x = uid) xs)"
  by (induction xs) (simp_all add: patch_row_protected)

lemma update_profile_users:
  "users (fst (snd (update_profile env st uid b))) = users st
   \<or> users (fst (snd (update_profile env st uid b)))
        = map (\<lambda>r. if id_u r = uid then patch_row (strip_protected b) r else r) (users st)"
  by (simp add: update_profile_def Let_def split: option.splits)

lemma update_profile_ok:
  assumes "status (fst (update_profile env st uid b)) = 200"
  shows "\<exists>u u'. filter (\<lambda>x. id_u x = uid) (users st) = [u]
           \<and> apply_patch (strip_protected b) u = Some u'
           \<and> update_profile env st uid b =
               (\<lparr>status = 200, body = UserBody u'\<rparr>,
                st\<lparr>users := map (\<lambda>r. if id_u r = uid then patch_row (strip_protected b) r else r) (users st)\<rparr>,
                [UsersUpdate uid])"
proof -
  let ?m = "filter (\<lambda>x. id_u x = uid) (users st)"
  from assms have nf: "\<not> store_fault env 0"
    and ok: "\<not> list_ex (\<lambda>r. apply_patch (strip_protected b) r = None) ?m"
    by (auto simp: update_profile_def Let_def split: if_splits)
  from assms nf ok obtain user where s: "single (map (patch_row (strip_protected b)) ?m) = Some user"
    by (auto simp: update_profile_def Let_def split: option.splits)
  then obtain u where m: "?m = [u]" and us: "user = patch_row (strip_protected b) u"
    by (auto simp: single_def split: list.splits)
  from ok m obtain u' where a: "apply_patch (strip_protected b) u = Some u'"
    by auto
  with us have "user = u'" by (simp add: patch_row_def)
  with nf ok s m a show ?thesis
    by (auto simp: update_profile_def Let_def)
qed

text \<open>
  Claim C8: a profile update never changes the id, the email, the total credit or the
  used-today count of any stored user row, whatever the request body holds and whether or
  not the update succeeds. When the request is answered 200, the caller's row is the one
  updated and returned, and every other property of the body is stored in it: a column
  named in the body has the body's value, a column not named keeps its value.
\<close>

theorem profile_update_protected:
  assumes "update_profile env st uid b = (r, st', cs)"
  shows "map id_u (users st') = map id_u (users st)
       \<and> map email (users st') = map email (users st)
       \<and> map total_points (users st') = map total_points (users st)
       \<and> map used_points_today (users st') = map used_points_today (users st)
       \<and> (status r = 200 \<longrightarrow>
            (\<exists>u u'. single (filter (\<lambda>x. id_u x = uid) (users st)) = Some u
                \<and> single (filter (\<lambda>x. id_u x = uid) (users st')) = Some u'
                \<and> body r = UserBody u'
                \<and> (\<forall>k. k \<notin> {''id'', ''email'', ''total_points'', ''used_points_today''} \<longrightarrow>
                        column u' k = (case b k of None \<Rightarrow> column u k | Some v \<Rightarrow> Some v))))"
proof -
  from assms have st': "st' = fst (snd (update_profile env st uid b))"
    and r: "r = fst (update_profile env st uid b)" by simp_all
  have frame: "map id_u (users st') = map id_u (users st)
       \<and> map email (users st') = map email (users st)
       \<and> map total_points (users st') = map total_points (users st)
       \<and> map used_points_today (users st') = map used_points_today (users st)"
    using update_profile_users [of env st uid b] unfolding st'
    by (auto simp: patch_row_protected)
  have "\<exists>u u'. single (filter (\<lambda>x. id_u x = uid) (users st)) = Some u
                \<and> single (filter (\<lambda>x. id_u x = uid) (users st')) = Some u'
                \<and> body r = UserBody u'
                \<and> (\<forall>k. k \<notin> {''id'', ''email'', ''total_points'', ''used_points_today''} \<longrightarrow>
                        column u' k = (case b k of None \<Rightarrow> column u k | Some v \<Rightarrow> Some v))"
    if "status r = 200"
  proof -
    from that r update_profile_ok [of env st uid b] obtain u u' where
      m: "filter (\<lambda>x. id_u x = uid) (users st) = [u]"
      and a: "apply_patch (strip_protected b) u = Some u'"
      and up: "update_profile env st uid b =
               (\<lparr>status = 200, body = UserBody u'\<rparr>,
                st\<lparr>users := map (\<lambda>r. if id_u r = uid then patch_row (strip_protected b) r else r) (users st)\<rparr>,
                [UsersUpdate uid])"
      by auto
    have "filter (\<lambda>x. id_u x = uid)
            (map (\<lambda>r. if id_u r = uid then patch_row (strip_protected b) r else r) (users st))
          = map (patch_row (strip_protected b)) (filter (\<lambda>x. id_u x = uid) (users st))"
      by (rule filter_patched)
    with m a up st' have "filter (\<lambda>x. id_u x = uid) (users st') = [u']"
      by (simp add: patch_row_def)
    with m a up r show ?thesis
      by (auto simp: single_def apply_patch_column)
  qed
  with frame show ?thesis by blast
qed

theorem profile_update_protected_witness:
  "status (fst (update_profile quiet_env (example_store (example_user ''free'' 0 3)) ''u1'' profile_patch)) = 200
   \<and> profile_patch ''total_points'' = Some (JNum 999)
   \<and> map total_points
        (users (fst (snd (update_profile quiet_env (example_store (example_user ''free'' 0 3)) ''u1'' profile_patch))))
       = [3]
   \<and> (\<exists>u'. single (filter (\<lambda>x. id_u x = ''u1'')
                 (users (fst (snd (update_profile quiet_env (example_store (example_user ''free'' 0 3)) ''u1''
                                     profile_patch))))) = Some u'
          \<and> column u' ''display_name'' = Some (JStr ''New Name''))"
proof -
  let ?S = "example_store (example_user ''free'' 0 3)"
  let ?o = "update_profile quiet_env ?S ''u1'' profile_patch"
  have e: "?o = (fst ?o, fst (snd ?o), snd (snd ?o))" by simp
  have s: "status (fst ?o) = 200"
    by (simp add: update_profile_def strip_protected_def profile_patch_def apply_patch_def
        text_column_def int_column_def patch_row_def single_def example_store_def
        example_user_def quiet_env_def)
  have p: "profile_patch ''total_points'' = Some (JNum 999)"
    and d: "profile_patch ''display_name'' = Some (JStr ''New Name'')"
    by (simp_all add: profile_patch_def)
  have t: "map total_points (users ?S) = [3]"
    by (simp add: example_store_def example_user_def)
  note th = profile_update_protected [OF e]
  from th t have a: "map total_points (users (fst (snd ?o))) = [3]" by simp
  from th s obtain u u' where
    u: "single (filter (\<lambda>x. id_u x = ''u1'') (users (fst (snd ?o)))) = Some u'"
    and c: "\<forall>k. k \<notin> {''id'', ''email'', ''total_points'', ''used_points_today''} \<longrightarrow>
               column u' k = (case profile_patch k of None \<Rightarrow> column u k | Some v \<Rightarrow> Some v)"
    by blast
  from c d have "column u' ''display_name'' = Some (JStr ''New Name'')" by simp
  with u s p a show ?thesis by blast
qed

section \<open>The like toggle\<close>

lemma track_likes_rpc:
  "track_likes (increment_likes t st) = track_likes st"
  "track_likes (decrement_likes t st) = track_likes st"
  by (simp_all add: increment_likes_def decrement_likes_def)

lemma like_track_absent:
  assumes "\<not> store_fault env 0" "\<not> store_fault env 1"
    and "filter (is_like_of uid trackId) (track_likes st) = []"
  shows "fst (like_track env st uid trackId) = \<lparr>status = 200, body = LikedBody True\<rparr>"
    and "track_likes (fst (snd (like_track env st uid trackId)))
           = track_likes st @ [\<lparr>user_id_l = uid, track_id_l = trackId\<rparr>]"
  using assms by (simp_all add: like_track_def single_def Let_def track_likes_rpc)

lemma like_track_present:
  assumes "\<not> store_fault env 0" "\<not> store_fault env 1"
    and "filter (is_like_of uid trackId) (track_likes st) = [l]"
  shows "fst (like_track env st uid trackId) = \<lparr>status = 200, body = LikedBody False\<rparr>"
    and "track_likes (fst (snd (like_track env st uid trackId)))
           = filter (\<lambda>l. \<not> is_like_of uid trackId l) (track_likes st)"
  using assms by (simp_all add: like_track_def single_def Let_def track_likes_rpc)

lemma liked_iff: "liked st uid trackId \<longleftrightarrow> filter (is_like_of uid trackId) (track_likes st) \<noteq> []"
  by (simp add: liked_def list_ex_iff filter_empty_conv)

text \<open>
  Claim C9 as stated fails: the handler checks neither the error of its read nor the
  outcome of its writes. When the insert fails, a toggle from the un-liked state is
  answered \<^verbatim>\<open>liked: true\<close> and the row is still absent.
\<close>

theorem like_write_fails:
  "\<not> liked (liked_store 0) ''u1'' ''t1''
   \<and> fst (like_track failing_write_env (liked_store 0) ''u1'' ''t1'')
       = \<lparr>status = 200, body = LikedBody True\<rparr>
   \<and> \<not> liked (fst (snd (like_track failing_write_env (liked_store 0) ''u1'' ''t1''))) ''u1'' ''t1''"
  by (simp add: liked_def liked_store_def like_track_def failing_write_env_def quiet_env_def
      single_def Let_def increment_likes_def)

text \<open>
  Two more requests that do not flip the row: when the read fails, or when the table holds
  two rows for the pair, \<^verbatim>\<open>.single()\<close> yields no row, so a liked pair is answered
  \<^verbatim>\<open>liked: true\<close> and one more row is inserted.
\<close>

lemma like_read_fails:
  "liked (liked_store 1) ''u1'' ''t1''
   \<and> fst (like_track failing_read_env (liked_store 1) ''u1'' ''t1'')
       = \<lparr>status = 200, body = LikedBody True\<rparr>
   \<and> like_count (fst (snd (like_track failing_read_env (liked_store 1) ''u1'' ''t1''))) ''u1'' ''t1'' = 2"
  by (simp add: liked_def liked_store_def like_track_def failing_read_env_def quiet_env_def
      single_def Let_def increment_likes_def like_count_def is_like_of_def)

lemma like_two_rows:
  "like_count (liked_store 2) ''u1'' ''t1'' = 2
   \<and> fst (like_track quiet_env (liked_store 2) ''u1'' ''t1'')
       = \<lparr>status = 200, body = LikedBody True\<rparr>
   \<and> liked (fst (snd (like_track quiet_env (liked_store 2) ''u1'' ''t1''))) ''u1'' ''t1''"
  by (simp add: liked_def liked_store_def like_track_def quiet_env_def numeral_2_eq_2
      single_def Let_def increment_likes_def like_count_def is_like_of_def)

text \<open>
  Claim C9, amended: when the request's read and write of \<^verbatim>\<open>track_likes\<close> succeed and the
  table holds at most one row for the pair, a like-toggle request flips the presence of the
  pair's row and reports the new state: an absent row is inserted and the answer is
  \<^verbatim>\<open>liked: true\<close>, a present row is deleted and the answer is \<^verbatim>\<open>liked: false\<close>. The rows of
  other pairs are untouched and the table again holds at most one row for the pair. Under
  the same conditions a second toggle from the un-liked state answers \<^verbatim>\<open>liked: false\<close> and
  leaves the table as it was at the start.
\<close>

theorem like_toggle_flips:
  assumes "\<not> store_fault env 0" and "\<not> store_fault env 1"
    and "like_count st uid trackId \<le> 1"
  shows "fst (like_track env st uid trackId)
           = \<lparr>status = 200, body = LikedBody (\<not> liked st uid trackId)\<rparr>
       \<and> liked (fst (snd (like_track env st uid trackId))) uid trackId = (\<not> liked st uid trackId)
       \<and> like_count (fst (snd (like_track env st uid trackId))) uid trackId \<le> 1
       \<and> filter (\<lambda>l. \<not> is_like_of uid trackId l) (track_likes (fst (snd (like_track env st uid trackId))))
           = filter (\<lambda>l. \<not> is_like_of uid trackId l) (track_likes st)
       \<and> (\<not> liked st uid trackId \<and> \<not> store_fault env2 0 \<and> \<not> store_fault env2 1 \<longrightarrow>
            fst (like_track env2 (fst (snd (like_track env st uid trackId))) uid trackId)
              = \<lparr>status = 200, body = LikedBody False\<rparr>
            \<and> track_likes (fst (snd (like_track env2 (fst (snd (like_track env st uid trackId))) uid trackId)))
              = track_likes st)"
proof (cases "filter (is_like_of uid trackId) (track_likes st)")
  case Nil
  note a = like_track_absent [OF assms(1,2) Nil]
  let ?st1 = "fst (snd (like_track env st uid trackId))"
  have row: "is_like_of uid trackId \<lparr>user_id_l = uid, track_id_l = trackId\<rparr>"
    by (simp add: is_like_of_def)
  have f1: "filter (is_like_of uid trackId) (track_likes ?st1) = [\<lparr>user_id_l = uid, track_id_l = trackId\<rparr>]"
    by (simp add: a(2) Nil row)
  have n: "filter (\<lambda>l. \<not> is_like_of uid trackId l) (track_likes st) = track_likes st"
    using Nil by (simp add: filter_empty_conv)
  have twice: "fst (like_track env2 ?st1 uid trackId) = \<lparr>status = 200, body = LikedBody False\<rparr>
            \<and> track_likes (fst (snd (like_track env2 ?st1 uid trackId))) = track_likes st"
    if "\<not> store_fault env2 0" "\<not> store_fault env2 1"
    using like_track_present [OF that f1] by (simp add: a(2) n row)
  have "\<not> liked st uid trackId" using Nil by (simp add: liked_iff)
  moreover have "liked ?st1 uid trackId" using f1 by (simp add: liked_iff)
  moreover have "like_count ?st1 uid trackId \<le> 1" using f1 by (simp add: like_count_def)
  moreover have "filter (\<lambda>l. \<not> is_like_of uid trackId l) (track_likes ?st1)
           = filter (\<lambda>l. \<not> is_like_of uid trackId l) (track_likes st)"
    by (simp add: a(2) row)
  ultimately show ?thesis using a(1) twice by simp
next
  case (Cons l ls)
  with assms(3) have one: "filter (is_like_of uid trackId) (track_likes st) = [l]"
    by (simp add: like_count_def)
  note p = like_track_present [OF assms(1,2) one]
  let ?st1 = "fst (snd (like_track env st uid trackId))"
  have f1: "filter (is_like_of uid trackId) (track_likes ?st1) = []"
    by (simp add: p(2) filter_empty_conv)
  have "liked st uid trackId" using one by (simp add: liked_iff)
  moreover have "\<not> liked ?st1 uid trackId" using f1 by (simp add: liked_iff)
  moreover have "like_count ?st1 uid trackId \<le> 1" using f1 by (simp add: like_count_def)
  moreover have "filter (\<lambda>l. \<not> is_like_of uid trackId l) (track_likes ?st1)
           = filter (\<lambda>l. \<not> is_like_of uid trackId l) (track_likes st)"
    by (simp add: p(2))
  ultimately show ?thesis using p(1) by simp
qed

theorem like_toggle_flips_witness:
  "\<not> store_fault quiet_env 0 \<and> \<not> store_fault quiet_env 1
   \<and> like_count (example_store (example_user ''free'' 0 3)) ''u1'' ''t1'' = 0
   \<and> \<not> liked (example_store (example_user ''free'' 0 3)) ''u1'' ''t1''
   \<and> fst (like_track quiet_env (example_store (example_user ''free'' 0 3)) ''u1'' ''t1'')
       = \<lparr>status = 200, body = LikedBody True\<rparr>
   \<and> liked (fst (snd (like_track quiet_env (example_store (example_user ''free'' 0 3)) ''u1'' ''t1''))) ''u1'' ''t1''
   \<and> fst (like_track quiet_env
             (fst (snd (like_track quiet_env (example_store (example_user ''free'' 0 3)) ''u1'' ''t1'')))
             ''u1'' ''t1'')
       = \<lparr>status = 200, body = LikedBody False\<rparr>
   \<and> track_likes (fst (snd (like_track quiet_env
             (fst (snd (like_track quiet_env (example_store (example_user ''free'' 0 3)) ''u1'' ''t1'')))
             ''u1'' ''t1'')))
       = track_likes (example_store (example_user ''free'' 0 3))"
proof -
  have a: "\<not> store_fault quiet_env 0" and b: "\<not> store_fault quiet_env 1"
    by (simp_all add: quiet_env_def)
  have c: "like_count (example_store (example_user ''free'' 0 3)) ''u1'' ''t1'' = 0"
    by (simp add: like_count_def example_store_def)
  then have c': "like_count (example_store (example_user ''free'' 0 3)) ''u1'' ''t1'' \<le> 1" by simp
  have d: "\<not> liked (example_store (example_user ''free'' 0 3)) ''u1'' ''t1''"
    by (simp add: liked_def example_store_def)
  from like_toggle_flips [OF a b c', of quiet_env] a b c d show ?thesis by simp
qed

section \<open>Publishing\<close>

lemma publish_tables:
  "published_tracks (set_published t st) = published_tracks st"
  "tracks (insert_published t uid n st) = tracks st"
  "published_tracks (insert_published t uid n st)
     = published_tracks st @ [\<lparr>track_id_p = t, user_id_p = uid, published_at = n\<rparr>]"
  by (simp_all add: set_published_def insert_published_def)

lemma publish_by_owner:
  assumes "select_owner env st trackId = Some t" and "user_id_t t = uid"
  shows "publish_track env st uid trackId =
           (\<lparr>status = 200, body = SuccessBody\<rparr>,
            (if store_fault env 2 then (if store_fault env 1 then st else set_published trackId st)
             else insert_published trackId uid (now env)
                    (if store_fault env 1 then st else set_published trackId st)),
            [TracksSelectOwner trackId, TracksUpdatePublished trackId, PublishedInsert trackId uid])"
  using assms by (simp add: publish_track_def not_owner_def Let_def)

lemma feed_listings_count:
  assumes "\<not> store_fault fenv 0" and "length (published_tracks st) \<le> 25"
  shows "feed_listings (body (fst (feed fenv st))) trackId = published_count st trackId"
proof -
  let ?xs = "rev (sort_key published_at (published_tracks st))"
  from assms(2) have t: "take 25 ?xs = ?xs" by simp
  have "length (filter (\<lambda>p. track_id_p p = trackId) ?xs)
          = length (filter (\<lambda>p. track_id_p p = trackId) (published_tracks st))"
    by (simp add: rev_filter [symmetric] filter_sort)
  with assms(1) t show ?thesis
    by (simp add: feed_def feed_listings_def published_count_def filter_map comp_def)
qed

text \<open>
  Claim C10: a publish request by the track's owner is answered 200 with success whether
  or not the update of the publish flag and the insert into \<^verbatim>\<open>published_tracks\<close> succeed; a
  failed write leaves its table unchanged and is not reported. The insert is issued
  without looking at the publish flag, so each publish request whose insert succeeds adds
  one more row for the track, and the feed (here with fewer than 25 rows before) lists the
  track once more than before: a track that is published again is listed twice.
\<close>

theorem publish_unchecked:
  assumes "select_owner env st trackId = Some t" and "user_id_t t = uid"
  shows "fst (publish_track env st uid trackId) = \<lparr>status = 200, body = SuccessBody\<rparr>
       \<and> snd (snd (publish_track env st uid trackId))
           = [TracksSelectOwner trackId, TracksUpdatePublished trackId, PublishedInsert trackId uid]
       \<and> (store_fault env 1 \<longrightarrow> tracks (fst (snd (publish_track env st uid trackId))) = tracks st)
       \<and> (store_fault env 2 \<longrightarrow>
            published_tracks (fst (snd (publish_track env st uid trackId))) = published_tracks st)
       \<and> (\<not> store_fault env 2 \<longrightarrow>
            published_count (fst (snd (publish_track env st uid trackId))) trackId
              = published_count st trackId + 1
            \<and> (\<not> store_fault fenv 0 \<and> length (published_tracks st) < 25 \<longrightarrow>
                 feed_listings (body (fst (feed fenv (fst (snd (publish_track env st uid trackId))))))
                    trackId = published_count st trackId + 1))"
proof -
  let ?st' = "fst (snd (publish_track env st uid trackId))"
  note p = publish_by_owner [OF assms]
  have a: "tracks ?st' = tracks st" if "store_fault env 1"
    using that by (simp add: p publish_tables)
  have b: "published_tracks ?st' = published_tracks st" if "store_fault env 2"
    using that by (simp add: p publish_tables)
  have c: "published_tracks ?st'
             = published_tracks st @ [\<lparr>track_id_p = trackId, user_id_p = uid, published_at = now env\<rparr>]"
    if "\<not> store_fault env 2"
    using that by (simp add: p publish_tables)
  have d: "published_count ?st' trackId = published_count st trackId + 1" if "\<not> store_fault env 2"
    using c [OF that] by (simp add: published_count_def)
  have e: "feed_listings (body (fst (feed fenv ?st'))) trackId = published_count st trackId + 1"
    if "\<not> store_fault env 2" "\<not> store_fault fenv 0" "length (published_tracks st) < 25"
  proof -
    from c [OF that(1)] that(3) have "length (published_tracks ?st') \<le> 25" by simp
    from feed_listings_count [OF that(2) this] d [OF that(1)] show ?thesis by simp
  qed
  from a b d e show ?thesis by (simp add: p)
qed

theorem publish_unchecked_witness:
  "select_owner quiet_env (example_store (example_user ''free'' 0 3)) ''t1'' = Some example_track
   \<and> user_id_t example_track = ''u1'' \<and> is_published example_track
   \<and> published_count (example_store (example_user ''free'' 0 3)) ''t1'' = 1
   \<and> fst (publish_track quiet_env (example_store (example_user ''free'' 0 3)) ''u1'' ''t1'')
       = \<lparr>status = 200, body = SuccessBody\<rparr>
   \<and> feed_listings
        (body (fst (feed quiet_env
           (fst (snd (publish_track quiet_env (example_store (example_user ''free'' 0 3)) ''u1'' ''t1''))))))
        ''t1'' = 2"
proof -
  let ?S = "example_store (example_user ''free'' 0 3)"
  have a: "select_owner quiet_env ?S ''t1'' = Some example_track"
    by (simp add: select_owner_def quiet_env_def example_store_def example_track_def single_def)
  have b: "user_id_t example_track = ''u1''" and b': "is_published example_track"
    by (simp_all add: example_track_def)
  have c: "published_count ?S ''t1'' = 1"
    by (simp add: published_count_def example_store_def)
  have d: "\<not> store_fault quiet_env 2" "\<not> store_fault quiet_env 0"
    by (simp_all add: quiet_env_def)
  have e: "length (published_tracks ?S) < 25"
    by (simp add: example_store_def)
  from publish_unchecked [OF a b, of quiet_env] c d e
  have "fst (publish_track quiet_env ?S ''u1'' ''t1'') = \<lparr>status = 200, body = SuccessBody\<rparr>
        \<and> feed_listings (body (fst (feed quiet_env (fst (snd (publish_track quiet_env ?S ''u1'' ''t1''))))))
        ''t1'' = 2"
    by simp
  with a b b' c show ?thesis by blast
qed

end
